theory Spec2Isabelle
  imports Complex_Main
begin

section \<open>Errors and process results\<close>

text \<open>
  The exceptions and aborts of the programs: a failed \<open>assert\<close>, a
  \<open>std::runtime_error\<close> with its message, the \<open>std::out_of_range\<close> of
  \<open>std::map::at\<close>, and the dereference of an \<open>end()\<close> iterator.
\<close>

datatype error = AssertionFailed | RuntimeError string | OutOfRange | InvalidDereference

text \<open>
  How a process ends: \<open>main\<close> returns a value, which is the exit code, or an
  exception leaves \<open>main\<close> uncaught and the process is terminated abnormally.
\<close>

datatype proc_exit = Exited int | Terminated error

section \<open>The field-grid sampler (write\_bfield.cpp)\<close>

text \<open>
  The sampler works on C++ \<open>double\<close> values. Every constant of the program
  (\<open>10\<close>, \<open>40\<close>, \<open>50\<close>, \<open>210\<close>, \<open>220\<close>, \<open>0.5\<close>, \<open>-100\<close>, \<open>1000\<close>, \<open>-500\<close>, \<open>500\<close>)
  is a float literal that converts to \<open>double\<close> without rounding, and every
  coordinate the loops reach is an integer of magnitude at most 1000, so each
  addition \<open>z += spacing\<close> is exact in binary64. The coordinates are therefore
  modelled as \<open>real\<close> numbers, with nothing lost.
\<close>

definition is_in_magnet :: "real \<Rightarrow> real \<Rightarrow> real \<Rightarrow> bool" where
  "is_in_magnet x y z =
     (let is_x_in_magnet = ((x \<ge> 40 \<and> x \<le> 50) \<or> (x \<ge> 210 \<and> x \<le> 220));
          is_y_in_magnet = (\<bar>y\<bar> \<le> 10);
          is_z_in_magnet = (\<bar>z\<bar> \<le> 10)
      in is_x_in_magnet \<and> is_y_in_magnet \<and> is_z_in_magnet)"

definition spacing :: real where "spacing = 10"
definition start_x :: real where "start_x = -100"
definition end_x :: real where "end_x = 1000"
definition start_z :: real where "start_z = -500"
definition end_z :: real where "end_z = 500"
definition start_y :: real where "start_y = -500"
definition end_y :: real where "end_y = 500"

text \<open>One line of \<open>bfield.txt\<close>: the six numbers \<open>x y z bx by bz\<close>.\<close>

type_synonym bfield_line = "real \<times> real \<times> real \<times> real \<times> real \<times> real"

definition emit_line :: "real \<Rightarrow> real \<Rightarrow> real \<Rightarrow> bfield_line" where
  "emit_line x y z =
     (let bx = 0; bz = 0; by = (if is_in_magnet x y z then 0.5 else 0)
      in (x, y, z, bx, by, bz))"

text \<open>
  The three nested \<open>while\<close> loops of \<open>main\<close>, innermost first. Each takes the
  loop variables and the file written so far, and returns them as the loop
  leaves them.
\<close>

function while_z :: "real \<Rightarrow> real \<Rightarrow> real \<Rightarrow> bfield_line list \<Rightarrow> real \<times> bfield_line list" where
  "while_z x y z file =
     (if z < end_z then while_z x y (z + spacing) (file @ [emit_line x y z])
      else (z, file))"
  by pat_completeness auto
termination
proof (relation "measure (\<lambda>(x, y, z, file). nat \<lceil>(end_z - z) / spacing\<rceil>)")
  fix x y z :: real
  assume a: "z < end_z"
  have e: "(end_z - (z + spacing)) / spacing = (end_z - z) / spacing - 1"
    by (simp add: spacing_def field_simps)
  have "\<lceil>(end_z - (z + spacing)) / spacing\<rceil> = \<lceil>(end_z - z) / spacing\<rceil> - 1"
    by (simp only: e ceiling_diff_one)
  moreover have "0 < \<lceil>(end_z - z) / spacing\<rceil>"
    using a by (simp add: spacing_def)
  ultimately have "nat \<lceil>(end_z - (z + spacing)) / spacing\<rceil>
      < nat \<lceil>(end_z - z) / spacing\<rceil>"
    by linarith
  then show "\<And>file file'. ((x, y, z + spacing, file'), x, y, z, file)
      \<in> measure (\<lambda>(x, y, z, file). nat \<lceil>(end_z - z) / spacing\<rceil>)"
    by simp
qed simp

function while_y :: "real \<Rightarrow> real \<Rightarrow> real \<Rightarrow> bfield_line list
    \<Rightarrow> real \<times> real \<times> bfield_line list" where
  "while_y x y z file =
     (if y < end_y then
        (case while_z x y z file of
           (z', file') \<Rightarrow> while_y x (y + spacing) start_z file')
      else (y, z, file))"
  by pat_completeness auto
termination
proof (relation "measure (\<lambda>(x, y, z, file). nat \<lceil>(end_y - y) / spacing\<rceil>)")
  fix x y z :: real
  assume a: "y < end_y"
  have e: "(end_y - (y + spacing)) / spacing = (end_y - y) / spacing - 1"
    by (simp add: spacing_def field_simps)
  have "\<lceil>(end_y - (y + spacing)) / spacing\<rceil> = \<lceil>(end_y - y) / spacing\<rceil> - 1"
    by (simp only: e ceiling_diff_one)
  moreover have "0 < \<lceil>(end_y - y) / spacing\<rceil>"
    using a by (simp add: spacing_def)
  ultimately have "nat \<lceil>(end_y - (y + spacing)) / spacing\<rceil>
      < nat \<lceil>(end_y - y) / spacing\<rceil>"
    by linarith
  then show "\<And>file file'. ((x, y + spacing, start_z, file'), x, y, z, file)
      \<in> measure (\<lambda>(x, y, z, file). nat \<lceil>(end_y - y) / spacing\<rceil>)"
    by simp
qed simp

function while_x :: "real \<Rightarrow> real \<Rightarrow> real \<Rightarrow> bfield_line list
    \<Rightarrow> real \<times> real \<times> real \<times> bfield_line list" where
  "while_x x y z file =
     (if x < end_x then
        (case while_y x y z file of
           (y', z', file') \<Rightarrow> while_x (x + spacing) start_y start_z file')
      else (x, y, z, file))"
  by pat_completeness auto
termination
proof (relation "measure (\<lambda>(x, y, z, file). nat \<lceil>(end_x - x) / spacing\<rceil>)")
  fix x y z :: real
  assume a: "x < end_x"
  have e: "(end_x - (x + spacing)) / spacing = (end_x - x) / spacing - 1"
    by (simp add: spacing_def field_simps)
  have "\<lceil>(end_x - (x + spacing)) / spacing\<rceil> = \<lceil>(end_x - x) / spacing\<rceil> - 1"
    by (simp only: e ceiling_diff_one)
  moreover have "0 < \<lceil>(end_x - x) / spacing\<rceil>"
    using a by (simp add: spacing_def)
  ultimately have "nat \<lceil>(end_x - (x + spacing)) / spacing\<rceil>
      < nat \<lceil>(end_x - x) / spacing\<rceil>"
    by linarith
  then show "\<And>file file'. ((x + spacing, start_y, start_z, file'), x, y, z, file)
      \<in> measure (\<lambda>(x, y, z, file). nat \<lceil>(end_x - x) / spacing\<rceil>)"
    by simp
qed simp

text \<open>
  \<open>main\<close> of write\_bfield.cpp: the contents of \<open>bfield.txt\<close> and the value
  \<open>main\<close> returns, which is the exit code of the process.
\<close>

definition write_bfield_main :: "bfield_line list \<times> proc_exit" where
  "write_bfield_main =
     (case while_x start_x start_y start_z [] of
        (x, y, z, bfield_file) \<Rightarrow> (bfield_file, Exited 1))"

declare while_z.simps [simp del] while_y.simps [simp del] while_x.simps [simp del]

text \<open>
  The grid by integer indices: the lines of one row of \<open>z\<close> values from index
  \<open>k\<close> on, of one plane from row \<open>j\<close> on, and of the volume from plane \<open>i\<close> on.
  The loops are compared with it below.
\<close>

definition grid_row :: "real \<Rightarrow> real \<Rightarrow> nat \<Rightarrow> bfield_line list" where
  "grid_row x y k = map (\<lambda>k. emit_line x y (start_z + spacing * real k)) [k..<100]"

definition grid_plane :: "real \<Rightarrow> nat \<Rightarrow> bfield_line list" where
  "grid_plane x j = concat (map (\<lambda>j. grid_row x (start_y + spacing * real j) 0) [j..<100])"

definition grid_volume :: "nat \<Rightarrow> bfield_line list" where
  "grid_volume i = concat (map (\<lambda>i. grid_plane (start_x + spacing * real i) 0) [i..<110])"


section \<open>The telescope simulation (telescope\_simulation.cpp)\<close>

text \<open>
  \<open>main\<close> configures the telescope detector, runs the simulator and writes
  the detector file, all through library calls, and then returns the literal
  \<open>1\<close>. Only the value returned on completion is modelled.
\<close>

definition telescope_simulation_main :: proc_exit where
  "telescope_simulation_main = Exited 1"

section \<open>The truth-fitting residual program (truth\_fitting\_momentum\_residual.cpp)\<close>

subsection \<open>Scalars\<close>

text \<open>
  A \<open>scalar\<close> is a floating-point number. Rounding is not modelled: a finite
  result is the exact real number. What is modelled is the part of IEEE
  arithmetic that decides the claims below: a division by zero does not raise,
  it yields an infinity or a NaN, and these propagate through subtraction.
  Signed zeros are not modelled; a zero divisor counts as \<open>+0\<close>.
\<close>

datatype scalar = Finite real | PosInf | NegInf | NaN

definition float_div :: "real \<Rightarrow> real \<Rightarrow> scalar" where
  "float_div a b =
     (if b \<noteq> 0 then Finite (a / b)
      else if 0 < a then PosInf
      else if a < 0 then NegInf
      else NaN)"

fun float_sub :: "scalar \<Rightarrow> scalar \<Rightarrow> scalar" where
  "float_sub (Finite a) (Finite b) = Finite (a - b)"
| "float_sub NaN _ = NaN"
| "float_sub _ NaN = NaN"
| "float_sub PosInf PosInf = NaN"
| "float_sub NegInf NegInf = NaN"
| "float_sub PosInf _ = PosInf"
| "float_sub NegInf _ = NegInf"
| "float_sub (Finite a) PosInf = NegInf"
| "float_sub (Finite a) NegInf = PosInf"

fun is_finite :: "scalar \<Rightarrow> bool" where
  "is_finite (Finite a) = True"
| "is_finite _ = False"

type_synonym vector3 = "real \<times> real \<times> real"

text \<open>
  Modelled from the spec: \<open>getter::norm\<close> and \<open>getter::perp\<close> belong to the
  linear-algebra plugin, which is not under src/. The spec calls them the
  momentum magnitude and the transverse momentum magnitude.
\<close>

definition getter_norm :: "vector3 \<Rightarrow> real" where
  "getter_norm v = (case v of (vx, vy, vz) \<Rightarrow> sqrt (vx * vx + vy * vy + vz * vz))"

definition getter_perp :: "vector3 \<Rightarrow> real" where
  "getter_perp v = (case v of (vx, vy, vz) \<Rightarrow> sqrt (vx * vx + vy * vy))"

subsection \<open>Event data\<close>

record particle =
  particle_id :: nat
  momentum :: vector3
  charge :: real

text \<open>A measurement serves only as a map key; its identifier stands for it.\<close>

type_synonym measurement = nat

text \<open>
  A \<open>std::map\<close> iterates in ascending key order, whatever the order of
  insertion, so \<open>begin()\<close> is the entry with the least key. The two maps whose
  \<open>begin()\<close> the program takes are kept as association lists in key order;
  the maps that are only read with \<open>at\<close> are partial functions.

  The particle map is keyed by the particle identifier, an integer. The
  contributing-particles map is keyed by the particle itself, so its order is
  that of the comparison \<open>operator<\<close> of particles. That operator is declared
  outside src/ and is taken as a parameter \<open>prec\<close> wherever the order matters.
\<close>

type_synonym particle_map = "(nat \<times> particle) list"
type_synonym contributing_map = "(particle \<times> nat) list"

record event_data =
  m_particle_map :: particle_map
  m_meas_to_param_map :: "measurement \<rightharpoonup> (vector3 \<times> vector3)"
  m_meas_to_ptc_map :: "measurement \<rightharpoonup> contributing_map"

definition key_ordered :: "(particle \<Rightarrow> particle \<Rightarrow> bool) \<Rightarrow> contributing_map \<Rightarrow> bool" where
  "key_ordered prec m = sorted_wrt prec (map fst m)"

text \<open>
  Modelled from the spec: the loader of the event data is not under src/. The
  spec describes the contributing particles of a measurement as the
  collection of the particles that contributed to it, with contribution
  counts, filled from the load stream. All that is taken from this is that
  the keys of the map are the particles of the stream.
\<close>

definition holds_stream :: "contributing_map \<Rightarrow> particle list \<Rightarrow> bool" where
  "holds_stream m stream = (fst ` set m = set stream)"

subsection \<open>Fitted tracks and the output files\<close>

text \<open>
  A fitted state, as far as the program reads it: its measurement, the three
  q/p values of its smoothed parameters, and the global position that the
  geometry computes from its smoothed local position and direction.
\<close>

record track_state =
  get_measurement :: measurement
  smoothed_qop :: scalar
  smoothed_qopT :: scalar
  smoothed_qopz :: scalar
  bound_to_global :: "scalar \<times> scalar \<times> scalar"

record fitted_track =
  items :: "track_state list"

datatype cell = Index nat | Value scalar

datatype csv_line = Header string | Row "cell list"

record sinks =
  residual_file :: "csv_line list"
  state_file :: "csv_line list"

text \<open>
  The unit constants \<open>detray::unit<scalar>::mm\<close> and \<open>::ns\<close> are declared
  outside src/ and are taken as parameters.
\<close>

record units =
  mm :: real
  ns :: real

text \<open>
  The collaborators of the program: the loader of an event, the seed
  generator built from the standard deviations, the truth-candidate builder
  and the fitter. They are black boxes, taken as functions.
\<close>

record ('sg, 'cand) collaborators =
  load_event :: "nat \<Rightarrow> event_data"
  seed_generator :: "scalar list \<Rightarrow> 'sg"
  generate_truth_candidates :: "event_data \<Rightarrow> 'sg \<Rightarrow> 'cand"
  host_fitting :: "'cand \<Rightarrow> fitted_track list"

subsection \<open>The program\<close>

definition qop_stddev :: "real \<Rightarrow> vector3 \<Rightarrow> scalar" where
  "qop_stddev q truth_mom = float_div (0.05 * \<bar>q\<bar>) (getter_norm truth_mom)"

definition stddevs :: "units \<Rightarrow> scalar \<Rightarrow> scalar list" where
  "stddevs u qop_sd =
     [Finite (0.02 * mm u), Finite (0.02 * mm u),
      Finite 0.0085, Finite 0.0085,
      qop_sd,
      Finite (1 * ns u)]"

definition residual_row :: "scalar \<Rightarrow> scalar \<Rightarrow> scalar \<Rightarrow> scalar \<Rightarrow> scalar \<Rightarrow> scalar \<Rightarrow> csv_line" where
  "residual_row fit_qop fit_qopT fit_qopz truth_qop truth_qopT truth_qopz =
     Row [Value fit_qop, Value fit_qopT, Value fit_qopz,
          Value truth_qop, Value truth_qopT, Value truth_qopz,
          Value (float_sub fit_qop truth_qop),
          Value (float_sub fit_qopT truth_qopT),
          Value (float_sub fit_qopz truth_qopz)]"

definition state_row :: "nat \<Rightarrow> nat \<Rightarrow> track_state \<Rightarrow> csv_line" where
  "state_row event i st =
     (case bound_to_global st of
        (gx, gy, gz) \<Rightarrow> Row [Index event, Index i, Value gx, Value gy, Value gz])"

text \<open>
  The body of the loop over the fitted tracks, for track \<open>i\<close> of an event.
  Every exception of the body is raised before its first write, so a failing
  track leaves the files as they were.
\<close>

definition process_track :: "event_data \<Rightarrow> nat \<Rightarrow> nat \<Rightarrow> fitted_track \<Rightarrow> sinks \<Rightarrow> error + sinks" where
  "process_track evt_data event i trk s =
     (case items trk of
        [] \<Rightarrow> Inl (RuntimeError ''track states is empty'')
      | st0 # _ \<Rightarrow>
         (let fit_qop = smoothed_qop st0;
              fit_qopT = smoothed_qopT st0;
              fit_qopz = smoothed_qopz st0;
              meas = get_measurement st0
          in case m_meas_to_param_map evt_data meas of
               None \<Rightarrow> Inl OutOfRange
             | Some param \<Rightarrow>
                (let global_mom = snd param;
                     p = getter_norm global_mom;
                     pT = getter_perp global_mom;
                     pz = snd (snd global_mom)
                 in case m_meas_to_ptc_map evt_data meas of
                      None \<Rightarrow> Inl OutOfRange
                    | Some contributing_particles \<Rightarrow>
                       (case contributing_particles of
                          [] \<Rightarrow> Inl InvalidDereference
                        | (ptc, n) # _ \<Rightarrow>
                           (let q = charge ptc;
                                truth_qop = float_div q p;
                                truth_qopT = float_div q pT;
                                truth_qopz = float_div q pz
                            in Inr (s\<lparr>residual_file := residual_file s @
                                        [residual_row fit_qop fit_qopT fit_qopz
                                           truth_qop truth_qopT truth_qopz],
                                      state_file := state_file s @
                                        map (state_row event i) (items trk)\<rparr>))))))"

text \<open>
  The result of a loop: it ran to its end, or an exception left it; either
  way with the files as written so far. The loop counters are natural
  numbers: they stay far below the range of their C++ types.
\<close>

datatype outcome = Completed sinks | Thrown error sinks

fun process_tracks :: "event_data \<Rightarrow> nat \<Rightarrow> nat \<Rightarrow> fitted_track list \<Rightarrow> sinks \<Rightarrow> outcome" where
  "process_tracks evt_data event i [] s = Completed s"
| "process_tracks evt_data event i (trk # rest) s =
     (case process_track evt_data event i trk s of
        Inl e \<Rightarrow> Thrown e s
      | Inr s' \<Rightarrow> process_tracks evt_data event (i + 1) rest s')"

text \<open>
  How the program is built. \<open>assert\<close> is a macro: it checks its condition
  unless \<open>NDEBUG\<close> is defined, and then it expands to nothing. Nothing under
  src/ fixes the build, so it is a parameter. Without the check, an empty
  particle map is read through \<open>begin()\<close>, which is then \<open>end()\<close>: undefined
  behaviour. The model takes what such a read yields as part of the build.
\<close>

record build =
  ndebug :: bool
  end_read :: particle

definition begin_second :: "build \<Rightarrow> particle_map \<Rightarrow> particle" where
  "begin_second b m = (case m of [] \<Rightarrow> end_read b | (pid, ptc) # _ \<Rightarrow> ptc)"

text \<open>
  The body of the loop over the events. The line printed to the standard
  output is left out.
\<close>

definition process_event :: "build \<Rightarrow> units \<Rightarrow> ('sg, 'cand) collaborators \<Rightarrow> nat \<Rightarrow> sinks
    \<Rightarrow> outcome" where
  "process_event b u c event s =
     (let evt_data = load_event c event
      in if \<not> ndebug b \<and> \<not> length (m_particle_map evt_data) > 0
         then Thrown AssertionFailed s
         else
           (let first_ptc = begin_second b (m_particle_map evt_data);
                truth_mom = momentum first_ptc;
                q = charge first_ptc;
                sg = seed_generator c (stddevs u (qop_stddev q truth_mom));
                truth_track_candidates = generate_truth_candidates c evt_data sg;
                track_states = host_fitting c truth_track_candidates
            in process_tracks evt_data event 0 track_states s))"

fun process_events :: "build \<Rightarrow> units \<Rightarrow> ('sg, 'cand) collaborators \<Rightarrow> nat list \<Rightarrow> sinks
    \<Rightarrow> outcome" where
  "process_events b u c [] s = Completed s"
| "process_events b u c (event # rest) s =
     (case process_event b u c event s of
        Thrown e s' \<Rightarrow> Thrown e s'
      | Completed s' \<Rightarrow> process_events b u c rest s')"

definition open_files :: sinks where
  "open_files =
     \<lparr>residual_file =
        [Header (''fit_qop, fit_qopT, fit_qopz, '' @
                 ''truth_qop, truth_qopT, truth_qopz,'' @
                 ''qop_residual, qopT_residual, qopz_residual'')],
      state_file = [Header ''event_id, fit_track_id, x, y, z'']\<rparr>"

text \<open>
  \<open>main\<close>, for a build and the options \<open>skip\<close> and \<open>events\<close>: the lines of the two files
  and how the process ends. \<open>EXIT_SUCCESS\<close> is \<open>0\<close>.
\<close>

definition truth_fitting_main :: "build \<Rightarrow> units \<Rightarrow> ('sg, 'cand) collaborators \<Rightarrow> nat \<Rightarrow> nat
    \<Rightarrow> sinks \<times> proc_exit" where
  "truth_fitting_main b u c skip events =
     (case process_events b u c [skip ..< events + skip] open_files of
        Thrown e s \<Rightarrow> (s, Terminated e)
      | Completed s \<Rightarrow> (s, Exited 0))"

subsection \<open>Test events\<close>

text \<open>
  Stub collaborators for concrete runs: every event index loads the same event
  data, the seed generator and the candidate builder pass the standard
  deviations on, and the fitter returns the given tracks.
\<close>

definition stub_collaborators :: "event_data \<Rightarrow> fitted_track list
    \<Rightarrow> (scalar list, scalar list) collaborators" where
  "stub_collaborators evt_data tracks =
     \<lparr>load_event = (\<lambda>event. evt_data),
      seed_generator = (\<lambda>sds. sds),
      generate_truth_candidates = (\<lambda>evt_data sg. sg),
      host_fitting = (\<lambda>cands. tracks)\<rparr>"

text \<open>
  An event with the given truth particles (in key order) and one measurement,
  number \<open>0\<close>, with the given global momentum and the given map of
  contributing particles.
\<close>

definition one_hit_event :: "particle list \<Rightarrow> vector3 \<Rightarrow> contributing_map \<Rightarrow> event_data" where
  "one_hit_event ptcs mom contributing =
     \<lparr>m_particle_map = map (\<lambda>p. (particle_id p, p)) ptcs,
      m_meas_to_param_map = [0 \<mapsto> ((0, 0, 0), mom)],
      m_meas_to_ptc_map = [0 \<mapsto> contributing]\<rparr>"

definition test_particle :: "nat \<Rightarrow> vector3 \<Rightarrow> real \<Rightarrow> particle" where
  "test_particle pid mom q = \<lparr>particle_id = pid, momentum = mom, charge = q\<rparr>"

text \<open>A fitted state on measurement \<open>0\<close> at the origin, with the given q/p triple.\<close>

definition fitted_state :: "scalar \<Rightarrow> scalar \<Rightarrow> scalar \<Rightarrow> track_state" where
  "fitted_state fit_qop fit_qopT fit_qopz =
     \<lparr>get_measurement = 0,
      smoothed_qop = fit_qop, smoothed_qopT = fit_qopT, smoothed_qopz = fit_qopz,
      bound_to_global = (Finite 0, Finite 0, Finite 0)\<rparr>"

definition test_units :: units where
  "test_units = \<lparr>mm = 1, ns = 299.792458\<rparr>"

text \<open>
  A build with the assertions compiled in, and one without them in which the
  read through \<open>end()\<close> yields a particle of momentum \<open>(1, 0, 0)\<close> and charge \<open>1\<close>.
\<close>

definition debug_build :: build where
  "debug_build = \<lparr>ndebug = False, end_read = test_particle 0 (1, 0, 0) 1\<rparr>"

definition ndebug_build :: build where
  "ndebug_build = \<lparr>ndebug = True, end_read = test_particle 0 (1, 0, 0) 1\<rparr>"

text \<open>A particle comparison for concrete runs: by identifier.\<close>

definition by_identifier :: "particle \<Rightarrow> particle \<Rightarrow> bool" where
  "by_identifier p q = (particle_id p < particle_id q)"

section \<open>Properties of the field-grid sampler\<close>

lemma while_z_exit: "\<not> z < end_z \<Longrightarrow> while_z x y z out = (z, out)"
  by (subst while_z.simps) simp

lemma while_y_exit: "\<not> y < end_y \<Longrightarrow> while_y x y z out = (y, z, out)"
  by (subst while_y.simps) simp

lemma while_x_exit: "\<not> x < end_x \<Longrightarrow> while_x x y z out = (x, y, z, out)"
  by (subst while_x.simps) simp

lemma while_z_grid:
  "k \<le> 100 \<Longrightarrow> while_z x y (start_z + spacing * real k) out = (end_z, out @ grid_row x y k)"
proof (induction "100 - k" arbitrary: k out)
  case 0
  then have "k = 100" by simp
  moreover have "start_z + spacing * real 100 = end_z"
    by (simp add: start_z_def end_z_def spacing_def)
  ultimately show ?case
    by (simp add: while_z_exit grid_row_def)
next
  case (Suc n)
  then have k: "k < 100" and n: "n = 100 - Suc k" by simp_all
  have lt: "start_z + spacing * real k < end_z"
    using k by (simp add: start_z_def end_z_def spacing_def)
  have step: "start_z + spacing * real k + spacing = start_z + spacing * real (Suc k)"
    by (simp add: algebra_simps)
  have s1: "while_z x y (start_z + spacing * real k) out
      = while_z x y (start_z + spacing * real (Suc k)) (out @ [emit_line x y (start_z + spacing * real k)])"
    using lt by (subst while_z.simps) (simp only: step if_True)
  have s2: "while_z x y (start_z + spacing * real (Suc k)) (out @ [emit_line x y (start_z + spacing * real k)])
      = (end_z, (out @ [emit_line x y (start_z + spacing * real k)]) @ grid_row x y (Suc k))"
    using Suc.hyps(1) [OF n] k by simp
  have s3: "[emit_line x y (start_z + spacing * real k)] @ grid_row x y (Suc k) = grid_row x y k"
    using k by (simp add: grid_row_def upt_conv_Cons)
  show ?case by (simp only: s1 s2 append_assoc s3)
qed


lemma while_y_grid:
  "j \<le> 100 \<Longrightarrow> while_y x (start_y + spacing * real j) start_z out
     = (end_y, start_z, out @ grid_plane x j)"
proof (induction "100 - j" arbitrary: j out)
  case 0
  then have "j = 100" by simp
  moreover have "start_y + spacing * real 100 = end_y"
    by (simp add: start_y_def end_y_def spacing_def)
  ultimately show ?case
    by (simp add: while_y_exit grid_plane_def)
next
  case (Suc n)
  then have j: "j < 100" and n: "n = 100 - Suc j" by simp_all
  have lt: "start_y + spacing * real j < end_y"
    using j by (simp add: start_y_def end_y_def spacing_def)
  have step: "start_y + spacing * real j + spacing = start_y + spacing * real (Suc j)"
    by (simp add: algebra_simps)
  have z0: "while_z x (start_y + spacing * real j) start_z out
      = (end_z, out @ grid_row x (start_y + spacing * real j) 0)"
    using while_z_grid [of 0 x "start_y + spacing * real j" out] by simp
  have s1: "while_y x (start_y + spacing * real j) start_z out
      = while_y x (start_y + spacing * real (Suc j)) start_z
          (out @ grid_row x (start_y + spacing * real j) 0)"
    using lt by (subst while_y.simps) (simp only: step if_True z0 prod.case)
  have s2: "while_y x (start_y + spacing * real (Suc j)) start_z (out @ grid_row x (start_y + spacing * real j) 0)
      = (end_y, start_z, (out @ grid_row x (start_y + spacing * real j) 0) @ grid_plane x (Suc j))"
    using Suc.hyps(1) [OF n] j by simp
  have s3: "grid_row x (start_y + spacing * real j) 0 @ grid_plane x (Suc j) = grid_plane x j"
    using j by (simp add: grid_plane_def upt_conv_Cons)
  show ?case by (simp only: s1 s2 append_assoc s3)
qed

lemma while_x_grid:
  "i \<le> 110 \<Longrightarrow> while_x (start_x + spacing * real i) start_y start_z out
     = (end_x, start_y, start_z, out @ grid_volume i)"
proof (induction "110 - i" arbitrary: i out)
  case 0
  then have "i = 110" by simp
  moreover have "start_x + spacing * real 110 = end_x"
    by (simp add: start_x_def end_x_def spacing_def)
  ultimately show ?case
    by (simp add: while_x_exit grid_volume_def)
next
  case (Suc n)
  then have i: "i < 110" and n: "n = 110 - Suc i" by simp_all
  have lt: "start_x + spacing * real i < end_x"
    using i by (simp add: start_x_def end_x_def spacing_def)
  have step: "start_x + spacing * real i + spacing = start_x + spacing * real (Suc i)"
    by (simp add: algebra_simps)
  have y0: "while_y (start_x + spacing * real i) start_y start_z out
      = (end_y, start_z, out @ grid_plane (start_x + spacing * real i) 0)"
    using while_y_grid [of 0 "start_x + spacing * real i" out] by simp
  have s1: "while_x (start_x + spacing * real i) start_y start_z out
      = while_x (start_x + spacing * real (Suc i)) start_y start_z
          (out @ grid_plane (start_x + spacing * real i) 0)"
    using lt by (subst while_x.simps) (simp only: step if_True y0 prod.case)
  have s2: "while_x (start_x + spacing * real (Suc i)) start_y start_z (out @ grid_plane (start_x + spacing * real i) 0)
      = (end_x, start_y, start_z, (out @ grid_plane (start_x + spacing * real i) 0) @ grid_volume (Suc i))"
    using Suc.hyps(1) [OF n] i by simp
  have s3: "grid_plane (start_x + spacing * real i) 0 @ grid_volume (Suc i) = grid_volume i"
    using i by (simp add: grid_volume_def upt_conv_Cons)
  show ?case by (simp only: s1 s2 append_assoc s3)
qed

lemma bfield_file_grid: "fst write_bfield_main = grid_volume 0"
  using while_x_grid [of 0 "[]"] by (simp add: write_bfield_main_def)

lemma length_grid_row: "length (grid_row x y 0) = 100"
  by (simp add: grid_row_def)

lemma length_grid_plane: "length (grid_plane x 0) = 10000"
  by (simp add: grid_plane_def length_concat comp_def length_grid_row sum_list_triv)

lemma length_grid_volume: "length (grid_volume 0) = 1100000"
  by (simp add: grid_volume_def length_concat comp_def length_grid_plane sum_list_triv)



lemma set_grid_volume:
  "set (grid_volume 0) =
     (\<Union>i<110. \<Union>j<100. (\<lambda>k. emit_line (start_x + spacing * real i)
        (start_y + spacing * real j) (start_z + spacing * real k)) ` {..<100})"
  by (simp add: grid_volume_def grid_plane_def grid_row_def atLeast0LessThan)

lemma emit_line_position:
  "(case emit_line x y z of (x', y', z', b) \<Rightarrow> x') = x"
  "(case emit_line x y z of (x', y', z', b) \<Rightarrow> y') = y"
  "(case emit_line x y z of (x', y', z', b) \<Rightarrow> z') = z"
  by (simp_all add: emit_line_def)

lemma inj_grid_coordinate: "inj_on (\<lambda>i. a + spacing * real i) A"
  by (simp add: inj_on_def spacing_def)

lemma index_ranges_nonempty: "{..<100::nat} \<noteq> {}" "{..<110::nat} \<noteq> {}"
  by (simp_all add: lessThan_empty_iff)

lemma x_values: "(\<lambda>(x, y, z, b). x) ` set (grid_volume 0) = (\<lambda>i. start_x + spacing * real i) ` {..<110}"
  by (simp add: set_grid_volume image_UN image_image emit_line_position image_constant_conv
      UNION_singleton_eq_range index_ranges_nonempty)

lemma y_values: "(\<lambda>(x, y, z, b). y) ` set (grid_volume 0) = (\<lambda>j. start_y + spacing * real j) ` {..<100}"
  by (simp add: set_grid_volume image_UN image_image emit_line_position image_constant_conv
      UNION_singleton_eq_range index_ranges_nonempty)

lemma z_values: "(\<lambda>(x, y, z, b). z) ` set (grid_volume 0) = (\<lambda>k. start_z + spacing * real k) ` {..<100}"
  by (simp add: set_grid_volume image_UN image_image emit_line_position image_constant_conv
      UNION_singleton_eq_range index_ranges_nonempty)

text \<open>
  C1: the sampler writes exactly 1,100,000 lines, for 110 distinct \<open>x\<close> values,
  100 distinct \<open>y\<close> values and 100 distinct \<open>z\<close> values, although the loops
  advance the coordinates by repeated addition of the spacing.
\<close>

theorem grid_sample_count:
  "length (fst write_bfield_main) = 1100000
   \<and> card ((\<lambda>(x, y, z, b). x) ` set (fst write_bfield_main)) = 110
   \<and> card ((\<lambda>(x, y, z, b). y) ` set (fst write_bfield_main)) = 100
   \<and> card ((\<lambda>(x, y, z, b). z) ` set (fst write_bfield_main)) = 100"
  by (simp add: bfield_file_grid length_grid_volume x_values y_values z_values
      card_image inj_grid_coordinate)

lemma grid_line_field:
  assumes "l \<in> set (grid_volume 0)"
  shows "\<exists>x y z. l = emit_line x y z"
  using assms by (auto simp: set_grid_volume)

text \<open>
  C3: on every line of the file the field vector is \<open>(0, 0.5, 0)\<close> exactly when
  \<open>x\<close> lies in \<open>[40, 50]\<close> or \<open>[210, 220]\<close> and \<open>|y| \<le> 10\<close> and \<open>|z| \<le> 10\<close>,
  and \<open>(0, 0, 0)\<close> exactly when it does not; the point \<open>(45, 0, 0)\<close> gets the
  field of the magnet and the point \<open>(45, 11, 0)\<close> gets no field.
\<close>

theorem field_assignment:
  "(\<forall>(x, y, z, bx, by, bz) \<in> set (fst write_bfield_main).
      ((bx, by, bz) = (0, 0.5, 0) \<longleftrightarrow>
         ((40 \<le> x \<and> x \<le> 50) \<or> (210 \<le> x \<and> x \<le> 220)) \<and> \<bar>y\<bar> \<le> 10 \<and> \<bar>z\<bar> \<le> 10)
    \<and> ((bx, by, bz) = (0, 0, 0) \<longleftrightarrow>
         \<not> (((40 \<le> x \<and> x \<le> 50) \<or> (210 \<le> x \<and> x \<le> 220)) \<and> \<bar>y\<bar> \<le> 10 \<and> \<bar>z\<bar> \<le> 10)))
   \<and> emit_line 45 0 0 = (45, 0, 0, 0, 0.5, 0)
   \<and> emit_line 45 11 0 = (45, 11, 0, 0, 0, 0)"
proof (intro conjI ballI)
  fix l assume "l \<in> set (fst write_bfield_main)"
  then obtain x y z where l: "l = emit_line x y z"
    using grid_line_field [of l] by (auto simp: bfield_file_grid)
  show "case l of (x, y, z, bx, by, bz) \<Rightarrow>
      ((bx, by, bz) = (0, 0.5, 0) \<longleftrightarrow>
         ((40 \<le> x \<and> x \<le> 50) \<or> (210 \<le> x \<and> x \<le> 220)) \<and> \<bar>y\<bar> \<le> 10 \<and> \<bar>z\<bar> \<le> 10)
    \<and> ((bx, by, bz) = (0, 0, 0) \<longleftrightarrow>
         \<not> (((40 \<le> x \<and> x \<le> 50) \<or> (210 \<le> x \<and> x \<le> 220)) \<and> \<bar>y\<bar> \<le> 10 \<and> \<bar>z\<bar> \<le> 10))"
    unfolding l emit_line_def is_in_magnet_def Let_def by simp
next
  show "emit_line 45 0 0 = (45, 0, 0, 0, 0.5, 0)"
    by (simp add: emit_line_def is_in_magnet_def)
  show "emit_line 45 11 0 = (45, 11, 0, 0, 0, 0)"
    by (simp add: emit_line_def is_in_magnet_def)
qed

lemma magnet_line_sampled: "(40, 0, 0, 0, 0.5, 0) \<in> set (fst write_bfield_main)"
proof -
  have "emit_line (start_x + spacing * real 14) (start_y + spacing * real 50)
      (start_z + spacing * real 50) \<in> set (grid_volume 0)"
    unfolding set_grid_volume
    by (intro UN_I [of 14] UN_I [of 50] imageI) simp_all
  then show ?thesis
    by (simp add: bfield_file_grid emit_line_def is_in_magnet_def start_x_def start_y_def
        start_z_def spacing_def)
qed

theorem field_assignment_witness:
  "(40, 0, 0, 0, 0.5, 0) \<in> set (fst write_bfield_main)
   \<and> ((0 :: real, 0.5 :: real, 0 :: real) = (0, 0.5, 0) \<longleftrightarrow>
        (((40 :: real) \<le> 40 \<and> (40 :: real) \<le> 50) \<or> ((210 :: real) \<le> 40 \<and> (40 :: real) \<le> 220))
        \<and> \<bar>0 :: real\<bar> \<le> 10 \<and> \<bar>0 :: real\<bar> \<le> 10)"
  using magnet_line_sampled field_assignment [THEN conjunct1, THEN bspec, OF magnet_line_sampled]
  by simp

text \<open>
  C10: the magnet predicate is mirror-symmetric in \<open>y\<close> and in \<open>z\<close>.
\<close>

theorem magnet_mirror_symmetry:
  "is_in_magnet x y z = is_in_magnet x (- y) z \<and> is_in_magnet x y z = is_in_magnet x y (- z)"
  by (simp add: is_in_magnet_def)

section \<open>Exit codes\<close>

lemma truth_fitting_exit_success:
  "process_events b u c [skip ..< events + skip] open_files = Completed s
   \<Longrightarrow> truth_fitting_main b u c skip events = (s, Exited 0)"
  by (simp add: truth_fitting_main_def)

lemma truth_fitting_exit_thrown:
  "process_events b u c [skip ..< events + skip] open_files = Thrown e s
   \<Longrightarrow> truth_fitting_main b u c skip events = (s, Terminated e)"
  by (simp add: truth_fitting_main_def)

text \<open>
  C2: a program that completes should end with exit code \<open>0\<close>. The sampler and
  the telescope simulation return \<open>1\<close> on completion instead; only the
  truth-fitting program returns \<open>EXIT_SUCCESS\<close> (lemma
  \<open>truth_fitting_exit_success\<close>).
\<close>

theorem success_exit_codes:
  "snd write_bfield_main = Exited 1 \<and> telescope_simulation_main = Exited 1
   \<and> Exited 1 \<noteq> Exited 0"
  using while_x_grid [of 0 "[]"]
  by (simp add: write_bfield_main_def telescope_simulation_main_def)

section \<open>Properties of the truth-fitting residual program\<close>

subsection \<open>Auxiliary facts\<close>

lemma float_div_finite: "b \<noteq> 0 \<Longrightarrow> float_div a b = Finite (a / b)"
  by (simp add: float_div_def)

lemma float_sub_self: "is_finite a \<Longrightarrow> float_sub a a = Finite 0"
  by (cases a) simp_all

lemma process_tracks_append:
  "process_tracks evt event i (xs @ ys) s =
     (case process_tracks evt event i xs s of
        Completed s' \<Rightarrow> process_tracks evt event (i + length xs) ys s'
      | Thrown e s' \<Rightarrow> Thrown e s')"
  by (induction xs arbitrary: i s) (auto split: sum.splits outcome.splits)

lemma process_events_append:
  "process_events b u c (xs @ ys) s =
     (case process_events b u c xs s of
        Completed s' \<Rightarrow> process_events b u c ys s'
      | Thrown e s' \<Rightarrow> Thrown e s')"
  by (induction xs arbitrary: s) (simp_all split: outcome.splits)

text \<open>
  An exception in one event ends the loop over the events: the later events
  are not processed, and \<open>main\<close> is left by the exception
  (\<open>truth_fitting_exit_thrown\<close>).
\<close>

lemma process_events_thrown:
  assumes "process_events b u c before s = Completed s1"
    and "process_event b u c event s1 = Thrown e s2"
  shows "process_events b u c (before @ event # rest) s = Thrown e s2"
  using assms by (simp add: process_events_append)

lemma process_event_seeded:
  assumes "m_particle_map (load_event c event) = (pid, ptc) # rest"
  shows "process_event b u c event s =
           process_tracks (load_event c event) event 0
             (host_fitting c (generate_truth_candidates c (load_event c event)
                (seed_generator c (stddevs u (qop_stddev (charge ptc) (momentum ptc)))))) s"
  using assms by (simp add: process_event_def begin_second_def Let_def)

lemma process_track_row:
  assumes "items trk = st0 # sts"
    and "m_meas_to_param_map evt_data (get_measurement st0) = Some (pos, mom)"
    and "m_meas_to_ptc_map evt_data (get_measurement st0) = Some ((ptc, n) # others)"
  shows "process_track evt_data event i trk s =
           Inr (s\<lparr>residual_file := residual_file s @
                    [residual_row (smoothed_qop st0) (smoothed_qopT st0) (smoothed_qopz st0)
                       (float_div (charge ptc) (getter_norm mom))
                       (float_div (charge ptc) (getter_perp mom))
                       (float_div (charge ptc) (snd (snd mom)))],
                  state_file := state_file s @ map (state_row event i) (items trk)\<rparr>)"
  using assms by (simp add: process_track_def Let_def)

lemma key_ordered_first:
  assumes "key_ordered prec ((ptc, n) # others)" and "e \<in> set others"
  shows "prec ptc (fst e)"
  using assms by (auto simp: key_ordered_def)

text \<open>
  Under an asymmetric comparison, as \<open>std::map\<close> requires, the first entry of a
  map in key order is fixed by its keys: two maps with the same keys begin
  with the same particle.
\<close>

lemma key_ordered_begin_unique:
  assumes "asymp prec"
    and "key_ordered prec ((p, n) # m)" and "key_ordered prec ((p', n') # m')"
    and "fst ` set ((p, n) # m) = fst ` set ((p', n') # m')"
  shows "p = p'"
proof (rule ccontr)
  assume ne: "p \<noteq> p'"
  have "p \<in> fst ` set ((p', n') # m')" using assms(4) by auto
  with ne obtain e' where e': "e' \<in> set m'" and "fst e' = p" by auto
  with key_ordered_first [OF assms(3) e'] have 1: "prec p' p" by simp
  have "p' \<in> fst ` set ((p, n) # m)" using assms(4) by auto
  with ne obtain e where e: "e \<in> set m" and "fst e = p'" by auto
  with key_ordered_first [OF assms(2) e] have 2: "prec p p'" by simp
  from 1 2 assms(1) show False by (auto dest: asympD)
qed

lemma sqrt_squares: "sqrt 169 = 13" "sqrt 25 = 5"
  using real_sqrt_abs [of 13] real_sqrt_abs [of 5] by simp_all

lemma oblique_momentum: "getter_norm (3, 4, 12) = 13" "getter_perp (3, 4, 12) = 5"
  by (simp_all add: getter_norm_def getter_perp_def sqrt_squares)

lemma beam_momentum: "getter_norm (1, 0, 0) = 1" "getter_perp (1, 0, 0) = 1"
  by (simp_all add: getter_norm_def getter_perp_def)

lemma stopped_momentum: "getter_norm (0, 0, 0) = 0" "getter_perp (0, 0, 0) = 0"
  by (simp_all add: getter_norm_def getter_perp_def)

lemmas test_defs = one_hit_event_def stub_collaborators_def fitted_state_def test_particle_def
  test_units_def debug_build_def ndebug_build_def

lemmas run_defs = truth_fitting_main_def process_event_def begin_second_def process_track_def
  residual_row_def state_row_def float_div_def stddevs_def qop_stddev_def Let_def

subsection \<open>Seed standard deviations\<close>

text \<open>
  C4: for every event with a truth particle, the seed generator is built with
  the standard deviations \<open>0.02 mm\<close>, \<open>0.02 mm\<close>, \<open>0.0085\<close>, \<open>0.0085\<close>,
  \<open>0.05 * |charge| / |momentum|\<close> and \<open>1 ns\<close>, where charge and momentum are
  those of the first particle of the particle map.
\<close>

theorem seed_standard_deviations:
  assumes "m_particle_map (load_event c event) = (pid, ptc) # rest"
  shows "process_event b u c event s =
           process_tracks (load_event c event) event 0
             (host_fitting c (generate_truth_candidates c (load_event c event)
                (seed_generator c
                   [Finite (0.02 * mm u), Finite (0.02 * mm u),
                    Finite 0.0085, Finite 0.0085,
                    float_div (0.05 * \<bar>charge ptc\<bar>) (getter_norm (momentum ptc)),
                    Finite (1 * ns u)]))) s
       \<and> (getter_norm (momentum ptc) \<noteq> 0 \<longrightarrow>
            float_div (0.05 * \<bar>charge ptc\<bar>) (getter_norm (momentum ptc))
              = Finite (0.05 * \<bar>charge ptc\<bar> / getter_norm (momentum ptc)))"
  using process_event_seeded [OF assms, of b u s]
  by (simp add: stddevs_def qop_stddev_def float_div_finite)

theorem seed_standard_deviations_witness:
  "(let tp = test_particle 1 (3, 4, 12) (- 1);
        c = stub_collaborators (one_hit_event [tp] (3, 4, 12) [(tp, 1)]) []
    in m_particle_map (load_event c 0) = (1, tp) # []
       \<and> getter_norm (momentum tp) \<noteq> 0
       \<and> process_event debug_build test_units c 0 open_files =
           process_tracks (load_event c 0) 0 0
             (host_fitting c (generate_truth_candidates c (load_event c 0)
                (seed_generator c
                   [Finite 0.02, Finite 0.02, Finite 0.0085, Finite 0.0085,
                    Finite (0.05 / 13), Finite 299.792458]))) open_files)"
proof -
  have h: "m_particle_map (load_event
      (stub_collaborators (one_hit_event [test_particle 1 (3, 4, 12) (- 1)] (3, 4, 12)
         [(test_particle 1 (3, 4, 12) (- 1), 1)]) []) 0)
    = (1, test_particle 1 (3, 4, 12) (- 1)) # []"
    by (simp add: test_defs)
  show ?thesis
    using seed_standard_deviations [OF h, of debug_build test_units open_files]
    by (simp add: test_defs oblique_momentum float_div_def)
qed

subsection \<open>Truth quantities\<close>

text \<open>
  C5 as stated fails, whatever the comparison of particles is. Take any
  comparison \<open>prec\<close> and any two particles with \<open>prec a b\<close> and different
  charges, and a measurement to which \<open>b\<close> contributes first and \<open>a\<close> second.
  The map in key order that holds the two is \<open>[a, b]\<close>, and the truth triple
  is computed with the charge of \<open>a\<close>, not with the charge of the first-seen
  particle \<open>b\<close>. So for no such comparison is the charge always that of the
  first-seen particle.
\<close>

theorem first_seen_counterexample:
  "\<not> (\<exists>prec a b. prec a b \<and> charge a \<noteq> charge b \<and>
        (\<forall>stream m evt_data trk st0 pos mom event i s.
           stream \<noteq> [] \<and> key_ordered prec m \<and> holds_stream m stream
           \<and> items trk = [st0]
           \<and> m_meas_to_param_map evt_data (get_measurement st0) = Some (pos, mom)
           \<and> m_meas_to_ptc_map evt_data (get_measurement st0) = Some m
           \<longrightarrow> process_track evt_data event i trk s =
                 Inr (s\<lparr>residual_file := residual_file s @
                          [residual_row (smoothed_qop st0) (smoothed_qopT st0) (smoothed_qopz st0)
                             (float_div (charge (hd stream)) (getter_norm mom))
                             (float_div (charge (hd stream)) (getter_perp mom))
                             (float_div (charge (hd stream)) (snd (snd mom)))],
                        state_file := state_file s @ [state_row event i st0]\<rparr>)))"
proof
  assume "\<exists>prec a b. prec a b \<and> charge a \<noteq> charge b \<and>
        (\<forall>stream m evt_data trk st0 pos mom event i s.
           stream \<noteq> [] \<and> key_ordered prec m \<and> holds_stream m stream
           \<and> items trk = [st0]
           \<and> m_meas_to_param_map evt_data (get_measurement st0) = Some (pos, mom)
           \<and> m_meas_to_ptc_map evt_data (get_measurement st0) = Some m
           \<longrightarrow> process_track evt_data event i trk s =
                 Inr (s\<lparr>residual_file := residual_file s @
                          [residual_row (smoothed_qop st0) (smoothed_qopT st0) (smoothed_qopz st0)
                             (float_div (charge (hd stream)) (getter_norm mom))
                             (float_div (charge (hd stream)) (getter_perp mom))
                             (float_div (charge (hd stream)) (snd (snd mom)))],
                        state_file := state_file s @ [state_row event i st0]\<rparr>))"
  then obtain prec a b where ab: "prec a b" and q: "charge a \<noteq> charge b"
    and policy: "\<And>stream m evt_data trk st0 pos mom event i s.
           stream \<noteq> [] \<and> key_ordered prec m \<and> holds_stream m stream
           \<and> items trk = [st0]
           \<and> m_meas_to_param_map evt_data (get_measurement st0) = Some (pos, mom)
           \<and> m_meas_to_ptc_map evt_data (get_measurement st0) = Some m
           \<Longrightarrow> process_track evt_data event i trk s =
                 Inr (s\<lparr>residual_file := residual_file s @
                          [residual_row (smoothed_qop st0) (smoothed_qopT st0) (smoothed_qopz st0)
                             (float_div (charge (hd stream)) (getter_norm mom))
                             (float_div (charge (hd stream)) (getter_perp mom))
                             (float_div (charge (hd stream)) (snd (snd mom)))],
                        state_file := state_file s @ [state_row event i st0]\<rparr>)"
    by blast
  let ?m = "[(a, 1), (b, 1)]"
  let ?st0 = "fitted_state (Finite 0) (Finite 0) (Finite 0)"
  let ?trk = "\<lparr>items = [?st0]\<rparr>"
  let ?evt = "one_hit_event [] (0, 0, 1) ?m"
  have h1: "items ?trk = ?st0 # []" by simp
  have h2: "m_meas_to_param_map ?evt (get_measurement ?st0) = Some ((0, 0, 0), (0, 0, 1))"
    by (simp add: one_hit_event_def fitted_state_def)
  have h3: "m_meas_to_ptc_map ?evt (get_measurement ?st0) = Some ((a, 1) # [(b, 1)])"
    by (simp add: one_hit_event_def fitted_state_def)
  have ordered: "key_ordered prec ?m" using ab by (simp add: key_ordered_def)
  have holds: "holds_stream ?m [b, a]" by (auto simp: holds_stream_def)
  let ?row = "\<lambda>q. residual_row (smoothed_qop ?st0) (smoothed_qopT ?st0) (smoothed_qopz ?st0)
                (float_div q (getter_norm (0, 0, 1)))
                (float_div q (getter_perp (0, 0, 1)))
                (float_div q (snd (snd (0 :: real, 0 :: real, 1 :: real))))"
  let ?written = "\<lambda>q. open_files\<lparr>residual_file := residual_file open_files @ [?row q],
                  state_file := state_file open_files @ [state_row 0 0 ?st0]\<rparr>"
  have code: "process_track ?evt 0 0 ?trk open_files = Inr (?written (charge a))"
    using process_track_row [OF h1 h2 h3, of 0 0 open_files] by simp
  have claim: "process_track ?evt 0 0 ?trk open_files = Inr (?written (charge b))"
    using policy [of "[b, a]" ?m ?trk ?st0 ?evt "(0, 0, 0)" "(0, 0, 1)" 0 0 open_files]
      ordered holds h2 h3 by simp
  from code claim have "?written (charge a) = ?written (charge b)" by simp
  then have "residual_file (?written (charge a)) = residual_file (?written (charge b))"
    by (rule arg_cong)
  then have "?row (charge a) = ?row (charge b)" by simp
  then have "float_div (charge a) 1 = float_div (charge b) 1"
    by (simp add: residual_row_def)
  then show False using q by (simp add: float_div_def)
qed

text \<open>
  C5, as amended: the truth triple is charge over \<open>|p|\<close>, over the transverse
  momentum and over the signed \<open>z\<close> component of the momentum that the first
  state's measurement maps to, with the charge of the first entry of the
  measurement's contributing-particles map. The map is a \<open>std::map\<close> keyed by
  the particle, so its first entry is the one whose particle precedes the
  particle of every other entry under the comparison of particles.
\<close>

theorem truth_quantities:
  assumes "items trk = st0 # sts"
    and "m_meas_to_param_map evt_data (get_measurement st0) = Some (pos, mom)"
    and "m_meas_to_ptc_map evt_data (get_measurement st0) = Some ((ptc, n) # others)"
    and "key_ordered prec ((ptc, n) # others)"
  shows "process_track evt_data event i trk s =
           Inr (s\<lparr>residual_file := residual_file s @
                    [residual_row (smoothed_qop st0) (smoothed_qopT st0) (smoothed_qopz st0)
                       (float_div (charge ptc) (getter_norm mom))
                       (float_div (charge ptc) (getter_perp mom))
                       (float_div (charge ptc) (snd (snd mom)))],
                  state_file := state_file s @ map (state_row event i) (items trk)\<rparr>)
       \<and> (\<forall>e \<in> set others. prec ptc (fst e))
       \<and> (getter_norm mom \<noteq> 0 \<longrightarrow>
             float_div (charge ptc) (getter_norm mom) = Finite (charge ptc / getter_norm mom))
       \<and> (getter_perp mom \<noteq> 0 \<longrightarrow>
             float_div (charge ptc) (getter_perp mom) = Finite (charge ptc / getter_perp mom))
       \<and> (snd (snd mom) \<noteq> 0 \<longrightarrow>
             float_div (charge ptc) (snd (snd mom)) = Finite (charge ptc / snd (snd mom)))"
  using process_track_row [OF assms(1-3), of event i s] key_ordered_first [OF assms(4)]
  by (simp add: float_div_finite)

theorem truth_quantities_witness:
  "(let late = test_particle 2 (3, 4, 12) 1;
        early = test_particle 1 (3, 4, 12) (- 1);
        st0 = fitted_state (Finite 0) (Finite 0) (Finite 0);
        evt_data = one_hit_event [early, late] (3, 4, 12) [(early, 1), (late, 1)]
    in items \<lparr>items = [st0]\<rparr> = st0 # []
       \<and> m_meas_to_param_map evt_data (get_measurement st0) = Some ((0, 0, 0), (3, 4, 12))
       \<and> m_meas_to_ptc_map evt_data (get_measurement st0) = Some ((early, 1) # [(late, 1)])
       \<and> key_ordered by_identifier ((early, 1) # [(late, 1)])
       \<and> by_identifier early late
       \<and> getter_norm (3, 4, 12) \<noteq> 0 \<and> getter_perp (3, 4, 12) \<noteq> 0
       \<and> snd (snd (3 :: real, 4 :: real, 12 :: real)) \<noteq> 0
       \<and> process_track evt_data 0 0 \<lparr>items = [st0]\<rparr> open_files =
           Inr (open_files\<lparr>residual_file := residual_file open_files @
                  [residual_row (Finite 0) (Finite 0) (Finite 0)
                     (Finite (- 1 / 13)) (Finite (- 1 / 5)) (Finite (- 1 / 12))],
                state_file := state_file open_files @ [state_row 0 0 st0]\<rparr>))"
proof -
  let ?late = "test_particle 2 (3, 4, 12) 1"
  let ?early = "test_particle 1 (3, 4, 12) (- 1)"
  let ?st0 = "fitted_state (Finite 0) (Finite 0) (Finite 0)"
  let ?evt = "one_hit_event [?early, ?late] (3, 4, 12) [(?early, 1), (?late, 1)]"
  have h1: "items \<lparr>items = [?st0]\<rparr> = ?st0 # []" by simp
  have h2: "m_meas_to_param_map ?evt (get_measurement ?st0) = Some ((0, 0, 0), (3, 4, 12))"
    by (simp add: one_hit_event_def fitted_state_def)
  have h3: "m_meas_to_ptc_map ?evt (get_measurement ?st0) = Some ((?early, 1) # [(?late, 1)])"
    by (simp add: one_hit_event_def fitted_state_def)
  have h4: "key_ordered by_identifier ((?early, 1) # [(?late, 1)])"
    by (simp add: key_ordered_def by_identifier_def test_particle_def)
  show ?thesis
    using truth_quantities [OF h1 h2 h3 h4, of 0 0 open_files] h4
    by (simp add: test_defs run_defs oblique_momentum by_identifier_def)
qed

subsection \<open>Residuals\<close>

text \<open>
  C6 as stated fails: for a particle of charge \<open>+1\<close> and momentum \<open>(1, 0, 0)\<close>
  the truth q/p along \<open>z\<close> is \<open>1 / 0 = +infinity\<close>; a fit triple equal to the
  truth triple gives the third residual \<open>infinity - infinity\<close>, which is NaN.
\<close>

theorem zero_residual_counterexample:
  "process_track
     (one_hit_event [test_particle 1 (1, 0, 0) 1] (1, 0, 0) [(test_particle 1 (1, 0, 0) 1, 1)])
     0 0 \<lparr>items = [fitted_state (Finite 1) (Finite 1) PosInf]\<rparr> open_files
   = Inr (open_files\<lparr>residual_file := residual_file open_files @
            [Row [Value (Finite 1), Value (Finite 1), Value PosInf,
                  Value (Finite 1), Value (Finite 1), Value PosInf,
                  Value (Finite 0), Value (Finite 0), Value NaN]],
          state_file := state_file open_files @
            [Row [Index 0, Index 0, Value (Finite 0), Value (Finite 0), Value (Finite 0)]]\<rparr>)
   \<and> NaN \<noteq> Finite 0"
  by (simp add: test_defs process_track_def residual_row_def state_row_def float_div_def
      beam_momentum Let_def)

text \<open>
  C6, as amended: the residual row holds the fit triple, the truth triple and
  the three differences fit minus truth; when the fit triple equals the truth
  triple and the three values are finite, the three residuals are exactly
  zero.
\<close>

theorem residual_algebra:
  assumes "items trk = st0 # sts"
    and "m_meas_to_param_map evt_data (get_measurement st0) = Some (pos, mom)"
    and "m_meas_to_ptc_map evt_data (get_measurement st0) = Some ((ptc, n) # others)"
    and "truth_qop = float_div (charge ptc) (getter_norm mom)"
    and "truth_qopT = float_div (charge ptc) (getter_perp mom)"
    and "truth_qopz = float_div (charge ptc) (snd (snd mom))"
  shows "process_track evt_data event i trk s =
           Inr (s\<lparr>residual_file := residual_file s @
                    [Row [Value (smoothed_qop st0), Value (smoothed_qopT st0),
                          Value (smoothed_qopz st0),
                          Value truth_qop, Value truth_qopT, Value truth_qopz,
                          Value (float_sub (smoothed_qop st0) truth_qop),
                          Value (float_sub (smoothed_qopT st0) truth_qopT),
                          Value (float_sub (smoothed_qopz st0) truth_qopz)]],
                  state_file := state_file s @ map (state_row event i) (items trk)\<rparr>)
       \<and> (smoothed_qop st0 = truth_qop \<and> smoothed_qopT st0 = truth_qopT
            \<and> smoothed_qopz st0 = truth_qopz
            \<and> is_finite truth_qop \<and> is_finite truth_qopT \<and> is_finite truth_qopz \<longrightarrow>
            float_sub (smoothed_qop st0) truth_qop = Finite 0
            \<and> float_sub (smoothed_qopT st0) truth_qopT = Finite 0
            \<and> float_sub (smoothed_qopz st0) truth_qopz = Finite 0)"
  using process_track_row [OF assms(1-3), of event i s] assms(4-6)
  by (simp add: residual_row_def float_sub_self)

theorem residual_algebra_witness:
  "(let tp = test_particle 1 (3, 4, 12) (- 1);
        st0 = fitted_state (Finite (- 1 / 13)) (Finite (- 1 / 5)) (Finite (- 1 / 12));
        evt_data = one_hit_event [tp] (3, 4, 12) [(tp, 1)]
    in items \<lparr>items = [st0]\<rparr> = st0 # []
       \<and> m_meas_to_param_map evt_data (get_measurement st0) = Some ((0, 0, 0), (3, 4, 12))
       \<and> m_meas_to_ptc_map evt_data (get_measurement st0) = Some ((tp, 1) # [])
       \<and> Finite (- 1 / 13) = float_div (charge tp) (getter_norm (3, 4, 12))
       \<and> Finite (- 1 / 5) = float_div (charge tp) (getter_perp (3, 4, 12))
       \<and> Finite (- 1 / 12) = float_div (charge tp) (snd (snd (3, 4, 12)))
       \<and> smoothed_qop st0 = Finite (- 1 / 13) \<and> smoothed_qopT st0 = Finite (- 1 / 5)
       \<and> smoothed_qopz st0 = Finite (- 1 / 12)
       \<and> is_finite (Finite (- 1 / 13)) \<and> is_finite (Finite (- 1 / 5))
       \<and> is_finite (Finite (- 1 / 12))
       \<and> process_track evt_data 0 0 \<lparr>items = [st0]\<rparr> open_files =
           Inr (open_files\<lparr>residual_file := residual_file open_files @
                  [Row [Value (Finite (- 1 / 13)), Value (Finite (- 1 / 5)), Value (Finite (- 1 / 12)),
                        Value (Finite (- 1 / 13)), Value (Finite (- 1 / 5)), Value (Finite (- 1 / 12)),
                        Value (Finite 0), Value (Finite 0), Value (Finite 0)]],
                state_file := state_file open_files @ [state_row 0 0 st0]\<rparr>))"
proof -
  let ?tp = "test_particle 1 (3, 4, 12) (- 1)"
  let ?st0 = "fitted_state (Finite (- 1 / 13)) (Finite (- 1 / 5)) (Finite (- 1 / 12))"
  let ?evt = "one_hit_event [?tp] (3, 4, 12) [(?tp, 1)]"
  have h1: "items \<lparr>items = [?st0]\<rparr> = ?st0 # []" by simp
  have h2: "m_meas_to_param_map ?evt (get_measurement ?st0) = Some ((0, 0, 0), (3, 4, 12))"
    by (simp add: one_hit_event_def fitted_state_def)
  have h3: "m_meas_to_ptc_map ?evt (get_measurement ?st0) = Some ((?tp, 1) # [])"
    by (simp add: one_hit_event_def fitted_state_def)
  have h4: "Finite (- 1 / 13) = float_div (charge ?tp) (getter_norm (3, 4, 12))"
    by (simp add: test_particle_def float_div_def oblique_momentum)
  have h5: "Finite (- 1 / 5) = float_div (charge ?tp) (getter_perp (3, 4, 12))"
    by (simp add: test_particle_def float_div_def oblique_momentum)
  have h6: "Finite (- 1 / 12) = float_div (charge ?tp) (snd (snd (3, 4, 12)))"
    by (simp add: test_particle_def float_div_def)
  show ?thesis
    using residual_algebra [OF h1 h2 h3 h4 h5 h6, of 0 0 open_files]
    by (simp add: test_defs run_defs oblique_momentum)
qed

subsection \<open>Empty tracks\<close>

text \<open>
  C7: a fitted track without states raises the runtime error
  \<open>track states is empty\<close> (the spec's \<open>EmptyTrackError\<close>). The loop over the
  tracks stops there, with the files as the tracks before left them: no
  residual row and no position row is written for the empty track. Nothing
  catches the exception, so \<open>main\<close> is left by it
  (lemma \<open>truth_fitting_exit_thrown\<close>).
\<close>

theorem empty_track_error:
  assumes "items trk = []"
    and "process_tracks evt_data event i before s = Completed s'"
  shows "process_track evt_data event (i + length before) trk s'
           = Inl (RuntimeError ''track states is empty'')
       \<and> process_tracks evt_data event i (before @ trk # rest) s
           = Thrown (RuntimeError ''track states is empty'') s'"
  using assms by (simp add: process_tracks_append process_track_def)

theorem empty_track_error_witness:
  "(let tp = test_particle 1 (3, 4, 12) (- 1);
        evt_data = one_hit_event [tp] (3, 4, 12) [(tp, 1)];
        good = \<lparr>items = [fitted_state (Finite 0) (Finite 0) (Finite 0)]\<rparr>;
        empty = \<lparr>items = []\<rparr>;
        written = open_files\<lparr>residual_file := residual_file open_files @
                    [residual_row (Finite 0) (Finite 0) (Finite 0)
                       (Finite (- 1 / 13)) (Finite (- 1 / 5)) (Finite (- 1 / 12))],
                  state_file := state_file open_files @
                    [Row [Index 0, Index 0, Value (Finite 0), Value (Finite 0), Value (Finite 0)]]\<rparr>
    in items empty = []
       \<and> process_tracks evt_data 0 0 [good] open_files = Completed written
       \<and> process_track evt_data 0 (0 + length [good]) empty written
           = Inl (RuntimeError ''track states is empty'')
       \<and> process_tracks evt_data 0 0 ([good] @ empty # [good]) open_files
           = Thrown (RuntimeError ''track states is empty'') written
       \<and> truth_fitting_main debug_build test_units (stub_collaborators evt_data [good, empty, good]) 0 1
           = (written, Terminated (RuntimeError ''track states is empty'')))"
proof -
  let ?tp = "test_particle 1 (3, 4, 12) (- 1)"
  let ?evt = "one_hit_event [?tp] (3, 4, 12) [(?tp, 1)]"
  let ?good = "\<lparr>items = [fitted_state (Finite 0) (Finite 0) (Finite 0)]\<rparr>"
  let ?written = "open_files\<lparr>residual_file := residual_file open_files @
                    [residual_row (Finite 0) (Finite 0) (Finite 0)
                       (Finite (- 1 / 13)) (Finite (- 1 / 5)) (Finite (- 1 / 12))],
                  state_file := state_file open_files @
                    [Row [Index 0, Index 0, Value (Finite 0), Value (Finite 0), Value (Finite 0)]]\<rparr>"
  have h1: "items \<lparr>items = []\<rparr> = []" by simp
  have h2: "process_tracks ?evt 0 0 [?good] open_files = Completed ?written"
    by (simp add: test_defs run_defs oblique_momentum)
  show ?thesis
    using empty_track_error [OF h1 h2, of "[?good]"] h2
    by (simp add: test_defs run_defs oblique_momentum)
qed

subsection \<open>Empty truth population\<close>




subsection \<open>Zero momentum\<close>

text \<open>
  C9 as stated fails: with a truth particle of momentum \<open>(0, 0, 0)\<close> the run
  raises nothing; the seed generator gets an infinite q/p standard deviation,
  the track is written and \<open>main\<close> returns \<open>EXIT_SUCCESS\<close>.
\<close>

theorem zero_momentum_counterexample:
  "getter_norm (momentum (test_particle 1 (0, 0, 0) 1)) = 0
   \<and> stddevs test_units (qop_stddev (charge (test_particle 1 (0, 0, 0) 1))
        (momentum (test_particle 1 (0, 0, 0) 1)))
      = [Finite 0.02, Finite 0.02, Finite 0.0085, Finite 0.0085, PosInf, Finite 299.792458]
   \<and> truth_fitting_main debug_build test_units
        (stub_collaborators
           (one_hit_event [test_particle 1 (0, 0, 0) 1] (0, 0, 0)
              [(test_particle 1 (0, 0, 0) 1, 1)])
           [\<lparr>items = [fitted_state (Finite 1) (Finite 1) (Finite 1)]\<rparr>])
        0 1
      = (open_files\<lparr>residual_file := residual_file open_files @
            [Row [Value (Finite 1), Value (Finite 1), Value (Finite 1),
                  Value PosInf, Value PosInf, Value PosInf,
                  Value NegInf, Value NegInf, Value NegInf]],
          state_file := state_file open_files @
            [Row [Index 0, Index 0, Value (Finite 0), Value (Finite 0), Value (Finite 0)]]\<rparr>,
         Exited 0)"
  by (simp add: test_defs truth_fitting_main_def process_event_def process_track_def
      residual_row_def state_row_def float_div_def stopped_momentum stddevs_def qop_stddev_def
      Let_def)

text \<open>
  C9, as amended: when the momentum of the first truth particle has magnitude
  zero, no error is raised. The q/p standard deviation is the floating-point
  quotient \<open>0.05 * |charge| / 0\<close>, which is \<open>+infinity\<close> for a charged particle and
  NaN for a neutral one, and the seed generator is built with it.
\<close>

theorem zero_momentum_seed:
  assumes "m_particle_map (load_event c event) = (pid, ptc) # rest"
    and "getter_norm (momentum ptc) = 0"
  shows "qop_stddev (charge ptc) (momentum ptc) = (if charge ptc = 0 then NaN else PosInf)
       \<and> process_event b u c event s =
           process_tracks (load_event c event) event 0
             (host_fitting c (generate_truth_candidates c (load_event c event)
                (seed_generator c
                   [Finite (0.02 * mm u), Finite (0.02 * mm u),
                    Finite 0.0085, Finite 0.0085,
                    (if charge ptc = 0 then NaN else PosInf),
                    Finite (1 * ns u)]))) s"
proof -
  have sd: "qop_stddev (charge ptc) (momentum ptc) = (if charge ptc = 0 then NaN else PosInf)"
    using assms(2) by (simp add: qop_stddev_def float_div_def)
  show ?thesis
    using process_event_seeded [OF assms(1), of b u s]
    by (simp only: sd stddevs_def simp_thms)
qed

theorem zero_momentum_seed_witness:
  "(let tp = test_particle 1 (0, 0, 0) 0;
        c = stub_collaborators (one_hit_event [tp] (0, 0, 0) [(tp, 1)]) []
    in m_particle_map (load_event c 0) = (1, tp) # []
       \<and> getter_norm (momentum tp) = 0
       \<and> qop_stddev (charge tp) (momentum tp) = NaN
       \<and> process_event debug_build test_units c 0 open_files = Completed open_files)"
proof -
  let ?tp = "test_particle 1 (0, 0, 0) 0"
  let ?c = "stub_collaborators (one_hit_event [?tp] (0, 0, 0) [(?tp, 1)]) []"
  have h1: "m_particle_map (load_event ?c 0) = (1, ?tp) # []"
    by (simp add: test_defs)
  have h2: "getter_norm (momentum ?tp) = 0"
    by (simp add: test_particle_def stopped_momentum)
  show ?thesis
    using zero_momentum_seed [OF h1 h2, of debug_build test_units open_files]
    by (simp add: test_defs run_defs stopped_momentum)
qed

end
